theory Spec2Isabelle
  imports Complex_Main "HOL-Library.Sublist"
begin

section \<open>Build Hotspot Analyzer: the pure-Python pipeline\<close>

text \<open>
  The development follows \<^verbatim>\<open>bha/types.py\<close> and the class \<^verbatim>\<open>Analyzer\<close> of
  \<^verbatim>\<open>bha/__init__.py\<close>. Python's unbounded \<^verbatim>\<open>int\<close> is \<^typ>\<open>int\<close>, \<^verbatim>\<open>str\<close> is
  \<^typ>\<open>string\<close>. A Python \<^verbatim>\<open>float\<close> is modelled by \<^typ>\<open>real\<close>: the comparisons and products
  of the code are kept, the rounding of IEEE doubles and the \<^verbatim>\<open>OverflowError\<close> of converting
  an integer beyond the double range are not represented.
\<close>

subsection \<open>Duration\<close>

text \<open>\<^verbatim>\<open>class Duration\<close>: one field \<^verbatim>\<open>_ns\<close>, set by \<^verbatim>\<open>__init__\<close> without any check.\<close>

datatype Duration = Duration (nanoseconds: int)

text \<open>\<^verbatim>\<open>int(x)\<close> on a float truncates toward zero.\<close>

definition py_int :: "real \<Rightarrow> int" where
  "py_int x = (if 0 \<le> x then \<lfloor>x\<rfloor> else \<lceil>x\<rceil>)"

text \<open>
  A JSON number is decoded by \<^verbatim>\<open>json.load\<close> either to an \<^verbatim>\<open>int\<close> or to a \<^verbatim>\<open>float\<close>;
  \<^verbatim>\<open>us * 1000\<close> stays an \<^verbatim>\<open>int\<close> in the first case.
\<close>

datatype number = PyInt int | PyFloat real

fun from_microseconds :: "number \<Rightarrow> Duration" where
  "from_microseconds (PyInt us) = Duration (us * 1000)"
| "from_microseconds (PyFloat us) = Duration (py_int (us * 1000))"

definition milliseconds :: "Duration \<Rightarrow> real" where
  "milliseconds d = real_of_int (nanoseconds d) / 1000000"

definition duration_add :: "Duration \<Rightarrow> Duration \<Rightarrow> Duration" where
  "duration_add a b = Duration (nanoseconds a + nanoseconds b)"

definition duration_sub :: "Duration \<Rightarrow> Duration \<Rightarrow> Duration" where
  "duration_sub a b = Duration (nanoseconds a - nanoseconds b)"

subsection \<open>Enumerations\<close>

datatype CompilerType = UNKNOWN | CLANG | GCC | MSVC | INTEL | NVCC

datatype SuggestionType =
  PCH | FORWARD_DECLARATION | INCLUDE_OPTIMIZATION | TEMPLATE_OPTIMIZATION | HEADER_SPLIT
  | PIMPL | UNITY_BUILD | MODULE_MIGRATION | CUSTOM

datatype Priority = LOW | MEDIUM | HIGH | CRITICAL

text \<open>\<^verbatim>\<open>Priority.value\<close>: the integer each member carries.\<close>

fun priority_value :: "Priority \<Rightarrow> int" where
  "priority_value LOW = 1"
| "priority_value MEDIUM = 2"
| "priority_value HIGH = 3"
| "priority_value CRITICAL = 4"

datatype Confidence = CONF_LOW | CONF_MEDIUM | CONF_HIGH

subsection \<open>Trace model\<close>

record IncludeInfo =
  header_path :: string
  include_time :: Duration
  line_number :: int
  is_system :: bool
  is_direct :: bool
  included_by :: "string option"

record TemplateInstantiation =
  template_name :: string
  instantiation_time :: Duration
  specialization :: string
  location_file :: string
  location_line :: int
  instantiation_count :: int

record SymbolInfo =
  name :: string
  mangled_name :: string
  symbol_type :: string
  size_bytes :: int
  is_inline :: bool
  is_template :: bool
  definition_file :: string
  definition_line :: int

text \<open>The field \<^verbatim>\<open>includes\<close> is written \<open>unit_includes\<close>: the plain word is reserved.\<close>

record CompilationUnit =
  source_file :: string
  compiler :: CompilerType
  total_time :: Duration
  frontend_time :: Duration
  backend_time :: Duration
  unit_includes :: "IncludeInfo list"
  templates :: "TemplateInstantiation list"
  symbols :: "SymbolInfo list"

subsection \<open>Trace documents\<close>

text \<open>
  \<^verbatim>\<open>CompilationUnit.from_json\<close> receives the dictionary that \<^verbatim>\<open>json.load\<close> produced. The
  documents modelled are those of the input format: \<^verbatim>\<open>traceEvents\<close>, when present, is an array
  of objects; in an event \<^verbatim>\<open>name\<close>, when present, is a string, \<^verbatim>\<open>dur\<close>, when present, is a
  number, and \<^verbatim>\<open>args\<close>, when present, is an object whose \<^verbatim>\<open>detail\<close>, when present, is a
  string. \<^const>\<open>None\<close> stands for an absent key, which the code reads through \<^verbatim>\<open>.get\<close> with
  a default. Keys the code never reads are left out.
\<close>

record trace_event =
  ev_name :: "string option"
  ev_dur :: "number option"
  ev_args :: "(string \<rightharpoonup> string) option"

record trace_document =
  traceEvents :: "trace_event list option"

text \<open>\<^verbatim>\<open>cls(source_file=source_hint)\<close>: every other field takes its dataclass default.\<close>

definition new_unit :: "string \<Rightarrow> CompilationUnit" where
  "new_unit source_hint =
     \<lparr> source_file = source_hint, compiler = UNKNOWN, total_time = Duration 0,
       frontend_time = Duration 0, backend_time = Duration 0,
       unit_includes = [], templates = [], symbols = [] \<rparr>"

text \<open>The body of the loop \<^verbatim>\<open>for event in trace_events\<close>.\<close>

definition parse_event :: "CompilationUnit \<Rightarrow> trace_event \<Rightarrow> CompilationUnit" where
  "parse_event unit event =
     (let nm = (case ev_name event of None \<Rightarrow> [] | Some n \<Rightarrow> n);
          dur = (case ev_dur event of None \<Rightarrow> PyInt 0 | Some d \<Rightarrow> d)
      in if nm = ''Total ExecuteCompiler'' then unit \<lparr> total_time := from_microseconds dur \<rparr>
         else if nm = ''Total Frontend'' then unit \<lparr> frontend_time := from_microseconds dur \<rparr>
         else if nm = ''Total Backend'' then unit \<lparr> backend_time := from_microseconds dur \<rparr>
         else if nm = ''Source'' then
           (let args = (case ev_args event of None \<Rightarrow> Map.empty | Some a \<Rightarrow> a)
            in case args ''detail'' of
                 None \<Rightarrow> unit
               | Some detail \<Rightarrow>
                   unit \<lparr> unit_includes := unit_includes unit @
                     [\<lparr> header_path = detail, include_time = from_microseconds dur,
                        line_number = 0, is_system = False, is_direct = True,
                        included_by = None \<rparr>] \<rparr>)
         else if nm = ''InstantiateClass'' \<or> nm = ''InstantiateFunction'' then
           (let args = (case ev_args event of None \<Rightarrow> Map.empty | Some a \<Rightarrow> a)
            in unit \<lparr> templates := templates unit @
                 [\<lparr> template_name = (case args ''detail'' of None \<Rightarrow> [] | Some d \<Rightarrow> d),
                    instantiation_time = from_microseconds dur,
                    specialization = [], location_file = [], location_line = 0,
                    instantiation_count = 1 \<rparr>] \<rparr>)
         else unit)"

definition from_json :: "trace_document \<Rightarrow> string \<Rightarrow> CompilationUnit" where
  "from_json data source_hint =
     foldl parse_event (new_unit source_hint)
       (case traceEvents data of None \<Rightarrow> [] | Some evs \<Rightarrow> evs)"

subsection \<open>Aggregated metrics\<close>

record FileMetrics =
  file_path :: string
  compile_time_ms :: real
  include_count :: int
  template_instantiation_count :: int
  lines_of_code :: int
  include_depth :: int
  is_header :: bool
  includers :: "string list"

record IncludeMetrics =
  total_includes :: int
  unique_includes :: int
  max_depth :: int
  total_include_time :: Duration
  most_included :: "(string \<times> int) list"
  slowest_includes :: "(string \<times> real) list"

record TemplateMetrics =
  total_instantiations :: int
  unique_templates :: int
  total_template_time :: Duration
  most_instantiated :: "(string \<times> int) list"
  slowest_templates :: "(string \<times> real) list"

record SymbolMetrics =
  total_symbols :: int
  inline_symbols :: int
  template_symbols :: int
  total_symbol_size :: int

record DependencyMetrics =
  total_dependencies :: int
  circular_dependencies :: int
  max_dependency_depth :: int
  strongly_connected_components :: int

record AnalysisResult =
  file_metrics :: "FileMetrics list"
  include_metrics :: IncludeMetrics
  template_metrics :: TemplateMetrics
  symbol_metrics :: SymbolMetrics
  dependency_metrics :: DependencyMetrics
  total_compile_time :: Duration
  file_count :: int

subsection \<open>Python dictionaries and \<^verbatim>\<open>sorted\<close>\<close>

text \<open>
  A \<^verbatim>\<open>dict\<close> keeps its keys in insertion order, and \<^verbatim>\<open>items()\<close> lists them in that order:
  an association list in which a key occurs once. Assigning to a key that is present keeps
  the key's position; a new key goes to the end.
\<close>

type_synonym 'v dict = "(string \<times> 'v) list"

fun dict_get :: "'v dict \<Rightarrow> string \<Rightarrow> 'v \<Rightarrow> 'v" where
  "dict_get [] k d = d"
| "dict_get ((k', v) # kvs) k d = (if k' = k then v else dict_get kvs k d)"

fun dict_set :: "'v dict \<Rightarrow> string \<Rightarrow> 'v \<Rightarrow> 'v dict" where
  "dict_set [] k v = [(k, v)]"
| "dict_set ((k', v') # kvs) k v =
     (if k' = k then (k', v) # kvs else (k', v') # dict_set kvs k v)"

text \<open>
  \<^verbatim>\<open>sorted(d.items(), key=lambda x: x[1], reverse=True)\<close>: a stable sort on the value,
  largest first; items with equal values keep the order they had in \<^verbatim>\<open>items()\<close>.
\<close>

definition sorted_by_value_reverse :: "(string \<times> 'v::linordered_idom) list \<Rightarrow> (string \<times> 'v) list" where
  "sorted_by_value_reverse items = sort_key (\<lambda>x. - snd x) items"

subsection \<open>The aggregator\<close>

text \<open>The variables \<^verbatim>\<open>AnalysisResult.from_compilation_units\<close> updates while it loops.\<close>

record aggregation =
  agg_total_compile_time :: Duration
  agg_file_metrics :: "FileMetrics list"
  include_counts :: "int dict"
  include_times :: "real dict"
  template_counts :: "int dict"
  template_times :: "real dict"

definition aggregate_include :: "aggregation \<Rightarrow> IncludeInfo \<Rightarrow> aggregation" where
  "aggregate_include a inc =
     (let path = header_path inc
      in a \<lparr> include_counts := dict_set (include_counts a) path
                 (dict_get (include_counts a) path 0 + 1),
             include_times := dict_set (include_times a) path
                 (dict_get (include_times a) path 0 + milliseconds (include_time inc)) \<rparr>)"

definition aggregate_template :: "aggregation \<Rightarrow> TemplateInstantiation \<Rightarrow> aggregation" where
  "aggregate_template a tmpl =
     (let nm = template_name tmpl
      in a \<lparr> template_counts := dict_set (template_counts a) nm
                 (dict_get (template_counts a) nm 0 + 1),
             template_times := dict_set (template_times a) nm
                 (dict_get (template_times a) nm 0 + milliseconds (instantiation_time tmpl)) \<rparr>)"

text \<open>The body of \<^verbatim>\<open>for unit in units\<close>.\<close>

definition aggregate_unit :: "aggregation \<Rightarrow> CompilationUnit \<Rightarrow> aggregation" where
  "aggregate_unit a unit =
     (let a1 = a \<lparr> agg_total_compile_time :=
                     duration_add (agg_total_compile_time a) (total_time unit),
                   agg_file_metrics := agg_file_metrics a @
                     [\<lparr> file_path = source_file unit,
                        compile_time_ms = milliseconds (total_time unit),
                        include_count = int (length (unit_includes unit)),
                        template_instantiation_count = int (length (templates unit)),
                        lines_of_code = 0, include_depth = 0, is_header = False,
                        includers = [] \<rparr>] \<rparr>;
          a2 = foldl aggregate_include a1 (unit_includes unit)
      in foldl aggregate_template a2 (templates unit))"

definition empty_aggregation :: aggregation where
  "empty_aggregation =
     \<lparr> agg_total_compile_time = Duration 0, agg_file_metrics = [],
       include_counts = [], include_times = [], template_counts = [], template_times = [] \<rparr>"

definition aggregate_units :: "CompilationUnit list \<Rightarrow> aggregation" where
  "aggregate_units units = foldl aggregate_unit empty_aggregation units"

definition from_compilation_units :: "CompilationUnit list \<Rightarrow> AnalysisResult" where
  "from_compilation_units units =
     (let a = aggregate_units units
      in \<lparr> file_metrics = agg_file_metrics a,
           include_metrics =
             \<lparr> total_includes = sum_list (map snd (include_counts a)),
               unique_includes = int (length (include_counts a)),
               max_depth = 0,
               total_include_time = Duration 0,
               most_included = take 10 (sorted_by_value_reverse (include_counts a)),
               slowest_includes = take 10 (sorted_by_value_reverse (include_times a)) \<rparr>,
           template_metrics =
             \<lparr> total_instantiations = sum_list (map snd (template_counts a)),
               unique_templates = int (length (template_counts a)),
               total_template_time = Duration 0,
               most_instantiated = take 10 (sorted_by_value_reverse (template_counts a)),
               slowest_templates = take 10 (sorted_by_value_reverse (template_times a)) \<rparr>,
           symbol_metrics =
             \<lparr> total_symbols = 0, inline_symbols = 0, template_symbols = 0,
               total_symbol_size = 0 \<rparr>,
           dependency_metrics =
             \<lparr> total_dependencies = 0, circular_dependencies = 0,
               max_dependency_depth = 0, strongly_connected_components = 0 \<rparr>,
           total_compile_time = agg_total_compile_time a,
           file_count = int (length units) \<rparr>)"

subsection \<open>Suggestions\<close>

text \<open>
  \<^verbatim>\<open>file_path\<close> and \<^verbatim>\<open>line_number\<close> of a suggestion are written \<open>sug_file_path\<close> and
  \<open>sug_line_number\<close>, apart from the fields of the same name above.
\<close>

record Suggestion =
  type :: SuggestionType
  priority :: Priority
  title :: string
  description :: string
  sug_file_path :: string
  sug_line_number :: int
  estimated_impact_ms :: real
  confidence :: Confidence
  affected_files :: "string list"
  code_changes :: "(string \<times> string) list list"

text \<open>
  The format specification \<^verbatim>\<open>:.0f\<close>: the nearest integer, a tie going to the even one,
  in decimal digits, with a minus sign for a negative number.
\<close>

definition round_half_even :: "real \<Rightarrow> int" where
  "round_half_even x =
     (let f = \<lfloor>x\<rfloor>; d = x - of_int f
      in if d < 1 / 2 then f else if 1 / 2 < d then f + 1 else if even f then f else f + 1)"

fun show_nat :: "nat \<Rightarrow> string" where
  "show_nat n =
     (if n < 10 then [''0123456789'' ! n]
      else show_nat (n div 10) @ [''0123456789'' ! (n mod 10)])"

declare show_nat.simps [simp del]

definition format_0f :: "real \<Rightarrow> string" where
  "format_0f x = (if x < 0 then ''-'' else []) @ show_nat (nat (round_half_even \<bar>x\<bar>))"

text \<open>The \<^verbatim>\<open>Suggestion(...)\<close> built for one slow file.\<close>

definition pch_suggestion :: "FileMetrics \<Rightarrow> Suggestion" where
  "pch_suggestion fm =
     \<lparr> type = PCH, priority = HIGH,
       title = ''Consider PCH for '' @ file_path fm,
       description = ''File takes '' @ format_0f (compile_time_ms fm) @ ''ms to compile'',
       sug_file_path = file_path fm, sug_line_number = 0,
       estimated_impact_ms = compile_time_ms fm * (3 / 10),
       confidence = CONF_MEDIUM, affected_files = [], code_changes = [] \<rparr>"

text \<open>
  \<^verbatim>\<open>Analyzer._generate_suggestions_python\<close>, on the attribute \<^verbatim>\<open>self._analysis_result\<close>
  (\<^const>\<open>None\<close> before \<^verbatim>\<open>analyze()\<close> has run). The list is returned as the loop built it.
\<close>

definition generate_suggestions_python :: "AnalysisResult option \<Rightarrow> Suggestion list" where
  "generate_suggestions_python analysis_result =
     (case analysis_result of
        None \<Rightarrow> []
      | Some r \<Rightarrow>
          if file_metrics r \<noteq> [] then
            foldl (\<lambda>suggestions fm.
                     if 5000 < compile_time_ms fm then suggestions @ [pch_suggestion fm]
                     else suggestions)
                  [] (file_metrics r)
          else [])"

subsection \<open>Notions used in the statements\<close>

text \<open>A JSON number below zero.\<close>

fun is_negative :: "number \<Rightarrow> bool" where
  "is_negative (PyInt n) = (n < 0)"
| "is_negative (PyFloat x) = (x < 0)"

text \<open>Every time stored in a unit is at least zero nanoseconds.\<close>

definition times_nonneg :: "CompilationUnit \<Rightarrow> bool" where
  "times_nonneg u \<longleftrightarrow>
     0 \<le> nanoseconds (total_time u) \<and> 0 \<le> nanoseconds (frontend_time u)
     \<and> 0 \<le> nanoseconds (backend_time u)
     \<and> list_all (\<lambda>i. 0 \<le> nanoseconds (include_time i)) (unit_includes u)
     \<and> list_all (\<lambda>t. 0 \<le> nanoseconds (instantiation_time t)) (templates u)"

text \<open>The update \<^verbatim>\<open>counts[k] = counts.get(k, 0) + 1\<close> of both counting dictionaries.\<close>

definition count_key :: "int dict \<Rightarrow> string \<Rightarrow> int dict" where
  "count_key d k = dict_set d k (dict_get d k 0 + 1)"

text \<open>The header paths of all includes of all units, in the order the aggregator visits them.\<close>

definition all_header_paths :: "CompilationUnit list \<Rightarrow> string list" where
  "all_header_paths units = concat (map (\<lambda>u. map header_path (unit_includes u)) units)"

text \<open>
  Scenario S2 of the specification: twelve translation units, each compiling for 100 ms and
  each including header \<open>H\<close> once for 60 ms.
\<close>

definition pch_trace :: trace_document where
  "pch_trace = \<lparr> traceEvents = Some
      [\<lparr> ev_name = Some ''Total ExecuteCompiler'', ev_dur = Some (PyInt 100000),
          ev_args = None \<rparr>,
       \<lparr> ev_name = Some ''Source'', ev_dur = Some (PyInt 60000),
          ev_args = Some [''detail'' \<mapsto> ''H''] \<rparr>] \<rparr>"

definition pch_units :: "CompilationUnit list" where
  "pch_units = map (from_json pch_trace)
     [''u01.cpp'', ''u02.cpp'', ''u03.cpp'', ''u04.cpp'', ''u05.cpp'', ''u06.cpp'',
      ''u07.cpp'', ''u08.cpp'', ''u09.cpp'', ''u10.cpp'', ''u11.cpp'', ''u12.cpp'']"

text \<open>A unit that only carries a source file and a total time, in milliseconds.\<close>

definition timed_unit :: "string \<Rightarrow> int \<Rightarrow> CompilationUnit" where
  "timed_unit path ms = (new_unit path) \<lparr> total_time := Duration (ms * 1000000) \<rparr>"

text \<open>The template names of all instantiations of all units, in the order visited.\<close>

definition all_template_names :: "CompilationUnit list \<Rightarrow> string list" where
  "all_template_names units = concat (map (\<lambda>u. map template_name (templates u)) units)"

text \<open>
  An event whose \<^verbatim>\<open>args\<close> has no \<^verbatim>\<open>detail\<close> key; an event without \<^verbatim>\<open>args\<close> is read
  with \<^verbatim>\<open>args = {}\<close> and is in the same case.
\<close>

definition lacks_detail :: "trace_event \<Rightarrow> bool" where
  "lacks_detail e \<longleftrightarrow> (case ev_args e of None \<Rightarrow> True | Some a \<Rightarrow> a ''detail'' = None)"

definition is_instantiation :: "trace_event \<Rightarrow> bool" where
  "is_instantiation e \<longleftrightarrow>
     ev_name e = Some ''InstantiateClass'' \<or> ev_name e = Some ''InstantiateFunction''"

text \<open>An \<^verbatim>\<open>InstantiateClass\<close> event of 3 microseconds whose \<^verbatim>\<open>args\<close> object is empty.\<close>

definition bare_instantiation :: trace_event where
  "bare_instantiation =
     \<lparr> ev_name = Some ''InstantiateClass'', ev_dur = Some (PyInt 3), ev_args = Some Map.empty \<rparr>"

text \<open>Python's \<^verbatim>\<open><\<close> on strings: lexicographic on the code points.\<close>

fun str_less :: "string \<Rightarrow> string \<Rightarrow> bool" where
  "str_less [] [] = False"
| "str_less [] (y # ys) = True"
| "str_less (x # xs) [] = False"
| "str_less (x # xs) (y # ys) =
     ((of_char x :: nat) < of_char y \<or> (x = y \<and> str_less xs ys))"

text \<open>Scenario S5: one unit that includes \<open>b.h\<close> and then \<open>a.h\<close>, once each, for 1 ms each.\<close>

definition tie_units :: "CompilationUnit list" where
  "tie_units = [from_json \<lparr> traceEvents = Some
      [\<lparr> ev_name = Some ''Source'', ev_dur = Some (PyInt 1000),
          ev_args = Some [''detail'' \<mapsto> ''b.h''] \<rparr>,
       \<lparr> ev_name = Some ''Source'', ev_dur = Some (PyInt 1000),
          ev_args = Some [''detail'' \<mapsto> ''a.h''] \<rparr>] \<rparr> ''main.cpp'']"

text \<open>A trace made of two such events.\<close>

definition two_bare_trace :: trace_document where
  "two_bare_trace = \<lparr> traceEvents = Some [bare_instantiation, bare_instantiation] \<rparr>"

section \<open>Properties\<close>

subsection \<open>Duration subtraction\<close>

text \<open>
  C5 (as stated): for every pair of Durations the difference has a non-negative nanosecond
  value, clamping to zero when the subtrahend is larger. \<^verbatim>\<open>__sub__\<close> does not clamp:
  one nanosecond minus two nanoseconds is minus one nanosecond.
\<close>

theorem C5_sub_negative_counterexample:
  "nanoseconds (duration_sub (Duration 1) (Duration 2)) = - 1
   \<and> \<not> 0 \<le> nanoseconds (duration_sub (Duration 1) (Duration 2))"
  by (simp add: duration_sub_def)

text \<open>
  C5 (amended): the difference carries exactly the integer difference of the two nanosecond
  values, so it is non-negative exactly when the subtrahend does not exceed the minuend.
\<close>

theorem C5_sub_exact:
  "nanoseconds (duration_sub a b) = nanoseconds a - nanoseconds b
   \<and> (0 \<le> nanoseconds (duration_sub a b) \<longleftrightarrow> nanoseconds b \<le> nanoseconds a)"
  by (simp add: duration_sub_def)


subsection \<open>Parser: auxiliary facts\<close>

lemma compiler_parse_event: "compiler (parse_event u e) = compiler u"
  by (simp add: parse_event_def Let_def split: option.split)

lemma compiler_foldl_parse_event: "compiler (foldl parse_event u evs) = compiler u"
  by (induction evs arbitrary: u) (simp_all add: compiler_parse_event)

lemma py_int_nonneg: "0 \<le> x \<Longrightarrow> 0 \<le> py_int x"
  by (simp add: py_int_def)

lemma from_microseconds_nonneg:
  "\<not> is_negative d \<Longrightarrow> 0 \<le> nanoseconds (from_microseconds d)"
  by (cases d) (simp_all add: py_int_nonneg)

lemma times_nonneg_parse_event:
  assumes "times_nonneg u" and "\<And>d. ev_dur e = Some d \<Longrightarrow> \<not> is_negative d"
  shows "times_nonneg (parse_event u e)"
proof -
  define dur where "dur = (case ev_dur e of None \<Rightarrow> PyInt 0 | Some d \<Rightarrow> d)"
  have "\<not> is_negative dur"
    using assms(2) by (cases "ev_dur e") (simp_all add: dur_def)
  then have d: "0 \<le> nanoseconds (from_microseconds dur)"
    by (rule from_microseconds_nonneg)
  show ?thesis
    using assms(1) d
    unfolding parse_event_def dur_def [symmetric] Let_def times_nonneg_def
    by (simp split: option.split)
qed

lemma times_nonneg_foldl:
  "times_nonneg u \<Longrightarrow> (\<And>e d. e \<in> set evs \<Longrightarrow> ev_dur e = Some d \<Longrightarrow> \<not> is_negative d)
   \<Longrightarrow> times_nonneg (foldl parse_event u evs)"
proof (induction evs arbitrary: u)
  case Nil
  then show ?case by simp
next
  case (Cons e evs)
  have "times_nonneg (parse_event u e)"
    using Cons.prems by (intro times_nonneg_parse_event) auto
  moreover have "\<And>e' d. e' \<in> set evs \<Longrightarrow> ev_dur e' = Some d \<Longrightarrow> \<not> is_negative d"
    using Cons.prems(2) by auto
  ultimately have "times_nonneg (foldl parse_event (parse_event u e) evs)"
    by (rule Cons.IH)
  then show ?case by simp
qed

lemma times_nonneg_new_unit: "times_nonneg (new_unit h)"
  by (simp add: times_nonneg_def new_unit_def)

subsection \<open>The compiler field after parsing\<close>

text \<open>
  C4 (as stated): a unit parsed from a document whose \<^verbatim>\<open>traceEvents\<close> array was consumed has
  compiler Clang. \<^verbatim>\<open>from_json\<close> builds the unit with the default \<^verbatim>\<open>CompilerType.UNKNOWN\<close>
  and no branch of its loop assigns the field: the trace of the repository's own test
  parses to a unit that is not Clang.
\<close>

theorem C4_compiler_not_clang_counterexample:
  "compiler (from_json
      \<lparr> traceEvents = Some [\<lparr> ev_name = Some ''Total ExecuteCompiler'',
                              ev_dur = Some (PyInt 5000000), ev_args = None \<rparr>] \<rparr>
      ''test.cpp'') \<noteq> CLANG"
  by (simp add: from_json_def parse_event_def new_unit_def)

text \<open>
  C4 (amended): every unit returned by \<^verbatim>\<open>from_json\<close>, whatever the document, has compiler
  Unknown.
\<close>

theorem C4_compiler_unknown: "compiler (from_json data source_hint) = UNKNOWN"
  by (simp add: from_json_def compiler_foldl_parse_event new_unit_def)

subsection \<open>Negative durations\<close>

text \<open>
  C6 (as stated): a negative \<^verbatim>\<open>dur\<close> is clamped to zero, so all stored times are
  non-negative. \<^verbatim>\<open>Duration.from_microseconds\<close> is \<^verbatim>\<open>int(us * 1000)\<close> with no clamp:
  a \<^verbatim>\<open>Total ExecuteCompiler\<close> event with \<^verbatim>\<open>dur = -5\<close> stores minus 5000 nanoseconds.
\<close>

theorem C6_negative_dur_counterexample:
  "nanoseconds (total_time (from_json
      \<lparr> traceEvents = Some [\<lparr> ev_name = Some ''Total ExecuteCompiler'',
                              ev_dur = Some (PyInt (- 5)), ev_args = None \<rparr>] \<rparr>
      ''a.cpp'')) = - 5000"
  by (simp add: from_json_def parse_event_def new_unit_def)

text \<open>
  C6 (amended): when no event of the document carries a negative \<^verbatim>\<open>dur\<close>, every time
  stored in the parsed unit (total, frontend and backend time, every include time, every
  instantiation time) is non-negative.
\<close>

theorem C6_nonneg_dur_nonneg_times:
  assumes "traceEvents data = Some evs"
    and "\<forall>e \<in> set evs. \<forall>d. ev_dur e = Some d \<longrightarrow> \<not> is_negative d"
  shows "times_nonneg (from_json data source_hint)"
  using assms by (simp add: from_json_def times_nonneg_foldl times_nonneg_new_unit)

theorem C6_nonneg_dur_nonneg_times_witness:
  "times_nonneg (from_json
      \<lparr> traceEvents = Some
          [\<lparr> ev_name = Some ''Total ExecuteCompiler'', ev_dur = Some (PyInt 5), ev_args = None \<rparr>,
           \<lparr> ev_name = Some ''Source'', ev_dur = Some (PyInt 7),
              ev_args = Some [''detail'' \<mapsto> ''vector''] \<rparr>] \<rparr>
      ''a.cpp'')"
  using C6_nonneg_dur_nonneg_times
    [of "\<lparr> traceEvents = Some
          [\<lparr> ev_name = Some ''Total ExecuteCompiler'', ev_dur = Some (PyInt 5), ev_args = None \<rparr>,
           \<lparr> ev_name = Some ''Source'', ev_dur = Some (PyInt 7),
              ev_args = Some [''detail'' \<mapsto> ''vector''] \<rparr>] \<rparr>"
        "[\<lparr> ev_name = Some ''Total ExecuteCompiler'', ev_dur = Some (PyInt 5), ev_args = None \<rparr>,
          \<lparr> ev_name = Some ''Source'', ev_dur = Some (PyInt 7),
             ev_args = Some [''detail'' \<mapsto> ''vector''] \<rparr>]"
        "''a.cpp''"]
  by simp

subsection \<open>Dictionaries: auxiliary facts\<close>

lemma dict_get_dict_set:
  "dict_get (dict_set d k v) k' dflt = (if k' = k then v else dict_get d k' dflt)"
  by (induction d) auto

lemma keys_dict_set:
  "map fst (dict_set d k v) = (if k \<in> set (map fst d) then map fst d else map fst d @ [k])"
  by (induction d) (force simp: image_iff)+

lemma length_dict_set:
  "length (dict_set d k v) = (if k \<in> set (map fst d) then length d else Suc (length d))"
  by (induction d) (force simp: image_iff)+

lemma sum_dict_set:
  fixes d :: "int dict"
  shows "sum_list (map snd (dict_set d k v)) = sum_list (map snd d) - dict_get d k 0 + v"
  by (induction d) auto

lemma sum_count_key: "sum_list (map snd (count_key d k)) = sum_list (map snd d) + 1"
  by (simp add: count_key_def sum_dict_set)

lemma sum_foldl_count_key:
  "sum_list (map snd (foldl count_key d ks)) = sum_list (map snd d) + int (length ks)"
  by (induction ks arbitrary: d) (simp_all add: sum_count_key)

lemma dict_get_pos:
  fixes d :: "int dict"
  shows "list_all (\<lambda>kv. 1 \<le> snd kv) d \<Longrightarrow> 0 \<le> dict_get d k 0"
  by (induction d) auto

lemma values_dict_set:
  "list_all P d \<Longrightarrow> P (k, v) \<Longrightarrow> list_all P (dict_set d k v)"
  by (induction d) auto

lemma values_count_key:
  "list_all (\<lambda>kv. 1 \<le> snd kv) d \<Longrightarrow> list_all (\<lambda>kv. 1 \<le> snd kv) (count_key d k)"
  unfolding count_key_def using dict_get_pos [of d k] by (intro values_dict_set) simp_all

lemma values_foldl_count_key:
  "list_all (\<lambda>kv. 1 \<le> snd kv) d \<Longrightarrow> list_all (\<lambda>kv. 1 \<le> snd kv) (foldl count_key d ks)"
  by (induction ks arbitrary: d) (simp_all add: values_count_key)

lemma length_le_sum:
  fixes d :: "int dict"
  shows "list_all (\<lambda>kv. 1 \<le> snd kv) d \<Longrightarrow> int (length d) \<le> sum_list (map snd d)"
  by (induction d) auto

subsection \<open>Aggregator: the include counts as one fold\<close>

lemma include_counts_foldl_template:
  "include_counts (foldl aggregate_template a ts) = include_counts a"
  by (induction ts arbitrary: a) (simp_all add: aggregate_template_def Let_def)

lemma include_counts_foldl_include:
  "include_counts (foldl aggregate_include a incs) =
     foldl count_key (include_counts a) (map header_path incs)"
  by (induction incs arbitrary: a) (simp_all add: aggregate_include_def Let_def count_key_def)

lemma include_counts_aggregate_unit:
  "include_counts (aggregate_unit a u) =
     foldl count_key (include_counts a) (map header_path (unit_includes u))"
  by (simp add: aggregate_unit_def Let_def include_counts_foldl_include
      include_counts_foldl_template)

lemma include_counts_foldl_unit:
  "include_counts (foldl aggregate_unit a units) =
     foldl count_key (include_counts a) (all_header_paths units)"
  by (induction units arbitrary: a)
    (simp_all add: include_counts_aggregate_unit all_header_paths_def)

lemma include_counts_aggregate_units:
  "include_counts (aggregate_units units) = foldl count_key [] (all_header_paths units)"
  by (simp add: aggregate_units_def include_counts_foldl_unit empty_aggregation_def)

lemma length_all_header_paths:
  "int (length (all_header_paths units)) = (\<Sum>u\<leftarrow>units. int (length (unit_includes u)))"
  by (induction units) (simp_all add: all_header_paths_def)

subsection \<open>Include totals\<close>

text \<open>
  C7: for every list of compilation units, \<^verbatim>\<open>total_includes\<close> is the sum over the units of
  the length of the unit's include list, and \<^verbatim>\<open>unique_includes\<close> is at most
  \<^verbatim>\<open>total_includes\<close>.
\<close>

theorem C7_include_totals:
  "total_includes (include_metrics (from_compilation_units units)) =
     (\<Sum>u\<leftarrow>units. int (length (unit_includes u)))
   \<and> unique_includes (include_metrics (from_compilation_units units))
       \<le> total_includes (include_metrics (from_compilation_units units))"
proof -
  let ?d = "foldl count_key [] (all_header_paths units)"
  have "list_all (\<lambda>kv. 1 \<le> snd kv) ?d"
    by (rule values_foldl_count_key) simp
  then have le: "int (length ?d) \<le> sum_list (map snd ?d)"
    by (rule length_le_sum)
  show ?thesis
    using le length_all_header_paths [of units]
    by (simp add: from_compilation_units_def Let_def include_counts_aggregate_units
        sum_foldl_count_key)
qed

subsection \<open>The empty build\<close>

text \<open>
  C8: on the empty list of units the aggregator returns a result (the loop body never runs,
  nothing can raise) with \<^verbatim>\<open>file_count = 0\<close>, every count and every time total zero, and
  the lists \<^verbatim>\<open>file_metrics\<close>, \<^verbatim>\<open>most_included\<close>, \<^verbatim>\<open>slowest_includes\<close>,
  \<^verbatim>\<open>most_instantiated\<close> and \<^verbatim>\<open>slowest_templates\<close> empty.
\<close>

theorem C8_empty_input:
  "from_compilation_units [] =
     \<lparr> file_metrics = [],
       include_metrics =
         \<lparr> total_includes = 0, unique_includes = 0, max_depth = 0,
           total_include_time = Duration 0, most_included = [], slowest_includes = [] \<rparr>,
       template_metrics =
         \<lparr> total_instantiations = 0, unique_templates = 0,
           total_template_time = Duration 0, most_instantiated = [],
           slowest_templates = [] \<rparr>,
       symbol_metrics =
         \<lparr> total_symbols = 0, inline_symbols = 0, template_symbols = 0,
           total_symbol_size = 0 \<rparr>,
       dependency_metrics =
         \<lparr> total_dependencies = 0, circular_dependencies = 0,
           max_dependency_depth = 0, strongly_connected_components = 0 \<rparr>,
       total_compile_time = Duration 0,
       file_count = 0 \<rparr>"
  by (simp add: from_compilation_units_def aggregate_units_def empty_aggregation_def
      sorted_by_value_reverse_def)

subsection \<open>Suggester: the loop as a filter\<close>

lemmas pipeline_defs =
  from_json_def parse_event_def new_unit_def from_compilation_units_def aggregate_units_def
  aggregate_unit_def aggregate_include_def aggregate_template_def empty_aggregation_def
  duration_add_def milliseconds_def Let_def sorted_by_value_reverse_def

lemma foldl_append_if:
  "foldl (\<lambda>acc x. if P x then acc @ [f x] else acc) acc xs = acc @ map f (filter P xs)"
  by (induction xs arbitrary: acc) simp_all

lemma generate_suggestions_python_eq:
  "generate_suggestions_python (Some r) =
     map pch_suggestion (filter (\<lambda>fm. 5000 < compile_time_ms fm) (file_metrics r))"
  by (cases "file_metrics r = []")
    (simp_all add: generate_suggestions_python_def foldl_append_if)

subsection \<open>The slow-file rule\<close>

text \<open>
  C9: the entries of \<^verbatim>\<open>file_metrics\<close> whose \<^verbatim>\<open>compile_time_ms\<close> exceeds 5000 and the
  suggestions correspond one to one, in order: the suggestion of an entry carries the entry's
  file path, type PCH, priority High, impact 0.3 times the compile time and confidence
  Medium. A path all of whose entries are at or below 5000 gets no suggestion.
\<close>

theorem C9_slow_file_rule:
  "let slow = filter (\<lambda>fm. 5000 < compile_time_ms fm) (file_metrics r);
       out = generate_suggestions_python (Some r)
   in length out = length slow
      \<and> (\<forall>i < length slow.
            sug_file_path (out ! i) = file_path (slow ! i)
            \<and> type (out ! i) = PCH
            \<and> priority (out ! i) = HIGH
            \<and> estimated_impact_ms (out ! i) = 0.3 * compile_time_ms (slow ! i)
            \<and> confidence (out ! i) = CONF_MEDIUM)
      \<and> (\<forall>p. (\<forall>fm \<in> set (file_metrics r). file_path fm = p \<longrightarrow> compile_time_ms fm \<le> 5000)
            \<longrightarrow> (\<forall>s \<in> set out. sug_file_path s \<noteq> p))"
  by (auto simp add: generate_suggestions_python_eq Let_def pch_suggestion_def)

theorem C9_slow_file_rule_witness:
  "length (generate_suggestions_python
      (Some (from_compilation_units [timed_unit ''a.cpp'' 6000, timed_unit ''b.cpp'' 5000]))) = 1
   \<and> sug_file_path (generate_suggestions_python
      (Some (from_compilation_units [timed_unit ''a.cpp'' 6000, timed_unit ''b.cpp'' 5000])) ! 0) = ''a.cpp''
   \<and> type (generate_suggestions_python
      (Some (from_compilation_units [timed_unit ''a.cpp'' 6000, timed_unit ''b.cpp'' 5000])) ! 0) = PCH
   \<and> priority (generate_suggestions_python
      (Some (from_compilation_units [timed_unit ''a.cpp'' 6000, timed_unit ''b.cpp'' 5000])) ! 0) = HIGH
   \<and> estimated_impact_ms (generate_suggestions_python
      (Some (from_compilation_units [timed_unit ''a.cpp'' 6000, timed_unit ''b.cpp'' 5000])) ! 0) = 1800
   \<and> confidence (generate_suggestions_python
      (Some (from_compilation_units [timed_unit ''a.cpp'' 6000, timed_unit ''b.cpp'' 5000])) ! 0) = CONF_MEDIUM"
proof -
  let ?r = "from_compilation_units [timed_unit ''a.cpp'' 6000, timed_unit ''b.cpp'' 5000]"
  have fms: "filter (\<lambda>fm. 5000 < compile_time_ms fm) (file_metrics ?r) =
      [\<lparr> file_path = ''a.cpp'', compile_time_ms = 6000, include_count = 0,
         template_instantiation_count = 0, lines_of_code = 0, include_depth = 0,
         is_header = False, includers = [] \<rparr>]"
    by (simp add: timed_unit_def pipeline_defs)
  show ?thesis
    using C9_slow_file_rule [of ?r] unfolding Let_def fms by simp
qed

subsection \<open>Order of the suggestions\<close>

text \<open>
  C3 (as stated): the returned list is sorted by priority descending, then estimated impact
  descending, then title ascending. The loop appends in the order of \<^verbatim>\<open>file_metrics\<close> and
  nothing sorts afterwards: with a 6000 ms file before a 7000 ms file, both suggestions have
  priority High and the impacts come out as 1800 before 2100.
\<close>

theorem C3_not_sorted_by_impact_counterexample:
  "map priority (generate_suggestions_python
      (Some (from_compilation_units [timed_unit ''a.cpp'' 6000, timed_unit ''b.cpp'' 7000])))
     = [HIGH, HIGH]
   \<and> map estimated_impact_ms (generate_suggestions_python
      (Some (from_compilation_units [timed_unit ''a.cpp'' 6000, timed_unit ''b.cpp'' 7000])))
     = [1800, 2100]"
  by (simp add: timed_unit_def pipeline_defs generate_suggestions_python_def pch_suggestion_def)

text \<open>
  C3 (amended): the suggestions come in the order of their files in \<^verbatim>\<open>file_metrics\<close> (the
  entries above 5000 ms, in input order), and every one has priority High; impact and title
  play no part in the order.
\<close>

theorem C3_file_metrics_order:
  "map sug_file_path (generate_suggestions_python (Some r)) =
     map file_path (filter (\<lambda>fm. 5000 < compile_time_ms fm) (file_metrics r))
   \<and> map priority (generate_suggestions_python (Some r)) =
       replicate (length (generate_suggestions_python (Some r))) HIGH"
  by (simp add: generate_suggestions_python_eq pch_suggestion_def comp_def
      map_replicate_const)

subsection \<open>No rule for widely included headers\<close>

text \<open>
  C1 (as stated): a header included in at least 10 translation units with at least 500 ms of
  summed include time gets a PCH suggestion with impact 0.7 * time * (n - 1) / n. In
  scenario S2 the header \<open>H\<close> is counted 12 times with 720 ms in total, and the suggester
  returns nothing: its only rule reads \<^verbatim>\<open>file_metrics\<close>.
\<close>

theorem C1_no_pch_candidate_counterexample:
  "most_included (include_metrics (from_compilation_units pch_units)) = [(''H'', 12)]
   \<and> slowest_includes (include_metrics (from_compilation_units pch_units)) = [(''H'', 720)]
   \<and> generate_suggestions_python (Some (from_compilation_units pch_units)) = []"
  by (simp add: pch_units_def pch_trace_def pipeline_defs generate_suggestions_python_def)

text \<open>
  C1 (amended): the output of the suggester is determined by \<^verbatim>\<open>file_metrics\<close> alone, so the
  include metrics of a header never produce a suggestion; when no file compiles for more
  than 5000 ms the output is empty, however often and however long a header is included.
\<close>

theorem C1_only_file_metrics_matter:
  "(file_metrics r = file_metrics r' \<longrightarrow>
      generate_suggestions_python (Some r) = generate_suggestions_python (Some r'))
   \<and> ((\<forall>fm \<in> set (file_metrics r). compile_time_ms fm \<le> 5000) \<longrightarrow>
      generate_suggestions_python (Some r) = [])"
  by (auto simp add: generate_suggestions_python_eq filter_empty_conv)

theorem C1_only_file_metrics_matter_witness:
  "generate_suggestions_python (Some (from_compilation_units pch_units)) =
     generate_suggestions_python (Some ((from_compilation_units pch_units)
        \<lparr> include_metrics := include_metrics (from_compilation_units []) \<rparr>))
   \<and> generate_suggestions_python (Some (from_compilation_units pch_units)) = []"
proof -
  let ?r = "from_compilation_units pch_units"
  let ?r' = "?r \<lparr> include_metrics := include_metrics (from_compilation_units []) \<rparr>"
  have same: "file_metrics ?r = file_metrics ?r'"
    by simp
  have fast: "\<forall>fm \<in> set (file_metrics ?r). compile_time_ms fm \<le> 5000"
    by (simp add: pch_units_def pch_trace_def pipeline_defs)
  show ?thesis
    using C1_only_file_metrics_matter [of ?r ?r'] same fast by blast
qed


subsection \<open>Parser: instantiation events\<close>

lemma templates_parse_event_prefix:
  "prefix (templates u) (templates (parse_event u e))"
  by (simp add: parse_event_def Let_def split: option.split)

lemma templates_foldl_prefix:
  "prefix (templates u) (templates (foldl parse_event u evs))"
proof (induction evs arbitrary: u)
  case Nil
  show ?case by simp
next
  case (Cons e evs)
  have "prefix (templates u) (templates (parse_event u e))"
    by (rule templates_parse_event_prefix)
  also have "prefix \<dots> (templates (foldl parse_event (parse_event u e) evs))"
    by (rule Cons.IH)
  finally show ?case by simp
qed

lemma templates_parse_event_instantiation:
  assumes "is_instantiation e" and "lacks_detail e"
  shows "templates (parse_event u e) = templates u @
     [\<lparr> template_name = [],
        instantiation_time = from_microseconds (case ev_dur e of None \<Rightarrow> PyInt 0 | Some d \<Rightarrow> d),
        specialization = [], location_file = [], location_line = 0,
        instantiation_count = 1 \<rparr>]"
  using assms
  by (auto simp add: parse_event_def Let_def is_instantiation_def lacks_detail_def
      split: option.splits)

lemma length_templates_parse_event:
  "length (templates (parse_event u e)) =
     length (templates u) + (if is_instantiation e then 1 else 0)"
  by (auto simp add: parse_event_def Let_def is_instantiation_def split: option.splits)

lemma length_templates_foldl:
  "length (templates (foldl parse_event u evs)) =
     length (templates u) + length (filter is_instantiation evs)"
  by (induction evs arbitrary: u) (simp_all add: length_templates_parse_event)

lemma source_without_detail_dropped:
  "ev_name e = Some ''Source'' \<Longrightarrow> lacks_detail e \<Longrightarrow> parse_event u e = u"
  by (auto simp add: parse_event_def Let_def lacks_detail_def split: option.splits)

lemma template_in_foldl:
  assumes "e \<in> set evs" "is_instantiation e" "lacks_detail e"
  shows "\<lparr> template_name = [],
        instantiation_time = from_microseconds (case ev_dur e of None \<Rightarrow> PyInt 0 | Some d \<Rightarrow> d),
        specialization = [], location_file = [], location_line = 0,
        instantiation_count = 1 \<rparr> \<in> set (templates (foldl parse_event u evs))"
    (is "?t \<in> _")
proof -
  from assms(1) obtain evs1 evs2 where evs: "evs = evs1 @ e # evs2"
    by (auto simp add: in_set_conv_decomp)
  let ?u1 = "foldl parse_event u evs1"
  have "?t \<in> set (templates (parse_event ?u1 e))"
    by (simp add: templates_parse_event_instantiation [OF assms(2,3)])
  moreover have "prefix (templates (parse_event ?u1 e))
      (templates (foldl parse_event (parse_event ?u1 e) evs2))"
    by (rule templates_foldl_prefix)
  ultimately have "?t \<in> set (templates (foldl parse_event (parse_event ?u1 e) evs2))"
    using set_mono_prefix by blast
  then show ?thesis by (simp add: evs)
qed

subsection \<open>Aggregator: the template counts as one fold\<close>

lemma template_counts_foldl_include:
  "template_counts (foldl aggregate_include a incs) = template_counts a"
  by (induction incs arbitrary: a) (simp_all add: aggregate_include_def Let_def)

lemma template_counts_foldl_template:
  "template_counts (foldl aggregate_template a ts) =
     foldl count_key (template_counts a) (map template_name ts)"
  by (induction ts arbitrary: a) (simp_all add: aggregate_template_def Let_def count_key_def)

lemma template_counts_aggregate_unit:
  "template_counts (aggregate_unit a u) =
     foldl count_key (template_counts a) (map template_name (templates u))"
  by (simp add: aggregate_unit_def Let_def template_counts_foldl_include
      template_counts_foldl_template)

lemma template_counts_foldl_unit:
  "template_counts (foldl aggregate_unit a units) =
     foldl count_key (template_counts a) (all_template_names units)"
  by (induction units arbitrary: a)
    (simp_all add: template_counts_aggregate_unit all_template_names_def)

lemma template_counts_aggregate_units:
  "template_counts (aggregate_units units) = foldl count_key [] (all_template_names units)"
  by (simp add: aggregate_units_def template_counts_foldl_unit empty_aggregation_def)

lemma dict_get_count_key:
  "dict_get (count_key d k') k 0 = dict_get d k 0 + (if k = k' then 1 else 0)"
  by (simp add: count_key_def dict_get_dict_set)

lemma dict_get_foldl_count_key:
  "dict_get (foldl count_key d ks) k 0 = dict_get d k 0 + int (count_list ks k)"
  by (induction ks arbitrary: d) (auto simp add: dict_get_count_key)

lemma count_list_pos: "x \<in> set xs \<Longrightarrow> 0 < count_list xs x"
  by (induction xs) auto

subsection \<open>Order of dictionary keys and stability of the sort\<close>

lemma subseq_set: "subseq xs ys \<Longrightarrow> set xs \<subseteq> set ys"
  by (auto elim: list_emb_set)

lemma subseq_pair_snoc:
  assumes "subseq [a, b] (xs @ [k])"
  shows "subseq [a, b] xs \<or> (a \<in> set xs \<and> b = k)"
proof -
  from assms obtain xs1 xs2 where split: "[a, b] = xs1 @ xs2"
    and s1: "subseq xs1 xs" and s2: "subseq xs2 [k]"
    by (rule subseq_appendE)
  from s2 have "length xs2 \<le> 1"
    using list_emb_length by fastforce
  with split consider "xs1 = [a, b]" "xs2 = []" | "xs1 = [a]" "xs2 = [b]"
    by (cases xs1; cases xs2) (auto simp add: Cons_eq_append_conv)
  then show ?thesis
  proof cases
    case 1
    with s1 show ?thesis by simp
  next
    case 2
    with s1 s2 show ?thesis by (auto simp add: subseq_singleton_left split: if_splits)
  qed
qed

lemma keys_foldl_count_key:
  "distinct (map fst (foldl count_key [] ks))
   \<and> set (map fst (foldl count_key [] ks)) = set ks
   \<and> (\<forall>a b. subseq [a, b] (map fst (foldl count_key [] ks))
         \<longrightarrow> a \<in> set (takeWhile (\<lambda>p. p \<noteq> b) ks))"
proof (induction ks rule: rev_induct)
  case Nil
  show ?case by simp
next
  case (snoc k ks)
  let ?keys = "map fst (foldl count_key [] ks)"
  let ?keys' = "map fst (foldl count_key [] (ks @ [k]))"
  from snoc.IH have dist: "distinct ?keys" and sets: "set ?keys = set ks"
    and order: "\<And>a b. subseq [a, b] ?keys \<Longrightarrow> a \<in> set (takeWhile (\<lambda>p. p \<noteq> b) ks)"
    by blast+
  have step: "?keys' = (if k \<in> set ?keys then ?keys else ?keys @ [k])"
    by (simp add: count_key_def keys_dict_set)
  have old: "a \<in> set (takeWhile (\<lambda>p. p \<noteq> b) (ks @ [k]))" if "subseq [a, b] ?keys" for a b
  proof -
    from that have "b \<in> set ?keys"
      using subseq_set by fastforce
    then have "b \<in> set ks" using sets by simp
    then have "takeWhile (\<lambda>p. p \<noteq> b) (ks @ [k]) = takeWhile (\<lambda>p. p \<noteq> b) ks"
      by simp
    with order [OF that] show ?thesis by simp
  qed
  show ?case
  proof (cases "k \<in> set ks")
    case True
    then have same: "?keys' = ?keys" using step sets by simp
    show ?thesis
      unfolding same using dist sets True old by auto
  next
    case False
    then have ext: "?keys' = ?keys @ [k]" using step sets by simp
    have new: "a \<in> set (takeWhile (\<lambda>p. p \<noteq> b) (ks @ [k]))" if "subseq [a, b] (?keys @ [k])" for a b
    proof -
      from subseq_pair_snoc [OF that] show ?thesis
      proof
        assume "subseq [a, b] ?keys"
        then show ?thesis by (rule old)
      next
        assume ab: "a \<in> set ?keys \<and> b = k"
        have "takeWhile (\<lambda>p. p \<noteq> k) (ks @ [k]) = ks @ takeWhile (\<lambda>p. p \<noteq> k) [k]"
          using False by (intro takeWhile_append2) auto
        then show ?thesis using ab sets by simp
      qed
    qed
    show ?thesis
      unfolding ext using dist sets False new by auto
  qed
qed

lemma subseq_nth_pair:
  assumes "i < j" and "j < length xs"
  shows "subseq [xs ! i, xs ! j] xs"
proof -
  have i: "i < length xs" using assms by simp
  have "xs ! j = drop (Suc i) xs ! (j - Suc i)"
    using assms by simp
  moreover have "j - Suc i < length (drop (Suc i) xs)"
    using assms by simp
  ultimately have "xs ! j \<in> set (drop (Suc i) xs)"
    using nth_mem by metis
  then have "subseq [xs ! j] (drop (Suc i) xs)"
    by (simp add: subseq_singleton_left)
  then have "subseq (xs ! i # [xs ! j]) (xs ! i # drop (Suc i) xs)"
    by (rule subseq_Cons2)
  then have "subseq [xs ! i, xs ! j] (take i xs @ xs ! i # drop (Suc i) xs)"
    by (rule subseq_drop_many)
  then show ?thesis
    using id_take_nth_drop [OF i] by simp
qed

lemma stable_pair:
  assumes "subseq [x, y] (take n (sort_key f xs))" and "f x = f y"
  shows "subseq [x, y] xs"
proof -
  have "subseq (take n (sort_key f xs)) (sort_key f xs)"
    by (simp add: prefix_imp_subseq take_is_prefix)
  with assms(1) have "subseq [x, y] (sort_key f xs)"
    using subseq_order.trans by blast
  then have "subseq (filter (\<lambda>z. f z = f x) [x, y]) (filter (\<lambda>z. f z = f x) (sort_key f xs))"
    by (rule subseq_filter)
  then have "subseq [x, y] (filter (\<lambda>z. f z = f x) xs)"
    using assms(2) by (simp add: sort_key_stable)
  moreover have "subseq (filter (\<lambda>z. f z = f x) xs) xs"
    by simp
  ultimately show ?thesis
    using subseq_order.trans by blast
qed

lemma most_included_eq:
  "most_included (include_metrics (from_compilation_units units)) =
     take 10 (sort_key (\<lambda>x. - snd x) (foldl count_key [] (all_header_paths units)))"
  by (simp add: from_compilation_units_def Let_def include_counts_aggregate_units
      sorted_by_value_reverse_def)

lemma unique_includes_eq:
  "unique_includes (include_metrics (from_compilation_units units)) =
     int (length (foldl count_key [] (all_header_paths units)))"
  by (simp add: from_compilation_units_def Let_def include_counts_aggregate_units)

lemma sorted_desc_take_sort_key:
  fixes d :: "(string \<times> int) list"
  shows "sorted_wrt (\<lambda>a b. snd b \<le> snd a) (take n (sort_key (\<lambda>x. - snd x) d))"
proof -
  have "sorted (map (\<lambda>x. - snd x) (sort_key (\<lambda>x. - snd x) d))"
    by (rule sorted_sort_key)
  then have "sorted_wrt (\<lambda>a b. - snd a \<le> - snd b) (sort_key (\<lambda>x. - snd x) d)"
    by (simp add: sorted_map)
  then have "sorted_wrt (\<lambda>a b. snd b \<le> snd a) (sort_key (\<lambda>x. - snd x) d)"
    by simp
  then show ?thesis by (rule sorted_wrt_take)
qed

lemma distinct_keys_take_sort_key:
  assumes "distinct (map fst d)"
  shows "distinct (map fst (take n (sort_key f d)))"
proof -
  from assms have "distinct d" and "inj_on fst (set d)"
    by (simp_all add: distinct_map)
  then have "distinct (map fst (sort_key f d))"
    by (simp add: distinct_map)
  then show ?thesis
    by (simp add: take_map [symmetric])
qed

subsection \<open>The most included headers\<close>

text \<open>
  C2 (as stated): \<^verbatim>\<open>most_included\<close> has at most min(10, unique_includes) entries, sorted by
  count descending with ties in ascending alphabetical order of the path. The sort key is the
  count alone and \<^verbatim>\<open>sorted\<close> is stable, so tied headers stay in dictionary order: a unit
  including \<open>b.h\<close> before \<open>a.h\<close> lists \<open>b.h\<close> first although \<open>a.h\<close> is the smaller
  string.
\<close>

theorem C2_tie_not_alphabetical_counterexample:
  "most_included (include_metrics (from_compilation_units tie_units))
     = [(''b.h'', 1), (''a.h'', 1)]
   \<and> str_less ''a.h'' ''b.h''"
  by (simp add: tie_units_def pipeline_defs)

text \<open>
  C2 (amended): \<^verbatim>\<open>most_included\<close> has at most min(10, unique_includes) entries, names no
  header twice and is sorted by count descending; of two entries with the same count, the
  earlier one is the header met first in the input (the units in order, the includes of a
  unit in order): it occurs before the first occurrence of the later one.
\<close>

theorem C2_most_included_order:
  "let m = include_metrics (from_compilation_units units); mi = most_included m
   in int (length mi) \<le> min 10 (unique_includes m)
      \<and> distinct (map fst mi)
      \<and> sorted_wrt (\<lambda>a b. snd b \<le> snd a) mi
      \<and> (\<forall>i j. i < j \<and> j < length mi \<and> snd (mi ! i) = snd (mi ! j) \<longrightarrow>
            fst (mi ! i) \<in> set (takeWhile (\<lambda>p. p \<noteq> fst (mi ! j)) (all_header_paths units)))"
proof -
  let ?ks = "all_header_paths units"
  let ?d = "foldl count_key [] ?ks"
  let ?mi = "take 10 (sort_key (\<lambda>x. - snd x) ?d)"
  have len: "int (length ?mi) \<le> min 10 (int (length ?d))"
    by simp
  have dist: "distinct (map fst ?mi)"
    by (rule distinct_keys_take_sort_key) (simp add: keys_foldl_count_key)
  have sorted: "sorted_wrt (\<lambda>a b. snd b \<le> snd a) ?mi"
    by (rule sorted_desc_take_sort_key)
  have ties: "fst (?mi ! i) \<in> set (takeWhile (\<lambda>p. p \<noteq> fst (?mi ! j)) ?ks)"
    if "i < j" "j < length ?mi" "snd (?mi ! i) = snd (?mi ! j)" for i j
  proof -
    have "subseq [?mi ! i, ?mi ! j] ?mi"
      using that(1,2) by (rule subseq_nth_pair)
    moreover have "- snd (?mi ! i) = - snd (?mi ! j)"
      using that(3) by simp
    ultimately have "subseq [?mi ! i, ?mi ! j] ?d"
      by (rule stable_pair)
    then have "subseq (map fst [?mi ! i, ?mi ! j]) (map fst ?d)"
      by (rule subseq_map)
    then have "subseq [fst (?mi ! i), fst (?mi ! j)] (map fst ?d)"
      by simp
    then show ?thesis
      using keys_foldl_count_key [of ?ks] by blast
  qed
  show ?thesis
    unfolding Let_def most_included_eq unique_includes_eq
    using len dist sorted ties by blast
qed

theorem C2_most_included_order_witness:
  "most_included (include_metrics (from_compilation_units tie_units))
     = [(''b.h'', 1), (''a.h'', 1)]
   \<and> all_header_paths tie_units = [''b.h'', ''a.h'']
   \<and> fst (most_included (include_metrics (from_compilation_units tie_units)) ! 0)
       \<in> set (takeWhile
            (\<lambda>p. p \<noteq> fst (most_included (include_metrics (from_compilation_units tie_units)) ! 1))
            (all_header_paths tie_units))"
proof -
  let ?mi = "most_included (include_metrics (from_compilation_units tie_units))"
  have mi: "?mi = [(''b.h'', 1), (''a.h'', 1)]"
    by (simp add: tie_units_def pipeline_defs)
  have paths: "all_header_paths tie_units = [''b.h'', ''a.h'']"
    by (simp add: tie_units_def all_header_paths_def pipeline_defs)
  have "(0::nat) < 1 \<and> 1 < length ?mi \<and> snd (?mi ! 0) = snd (?mi ! 1)"
    by (simp add: mi)
  then have "fst (?mi ! 0) \<in> set (takeWhile (\<lambda>p. p \<noteq> fst (?mi ! 1)) (all_header_paths tie_units))"
    using C2_most_included_order [of tie_units] unfolding Let_def by blast
  with mi paths show ?thesis by blast
qed



subsection \<open>Aggregator: templates with the empty name\<close>

lemma count_list_prefix_le: "prefix xs ys \<Longrightarrow> count_list xs k \<le> count_list ys k"
  by (auto simp add: prefix_def)

lemma empty_names_parse_event:
  "count_list (map template_name (templates u)) []
     + (if is_instantiation e \<and> lacks_detail e then 1 else 0)
   \<le> count_list (map template_name (templates (parse_event u e))) []"
proof (cases "is_instantiation e \<and> lacks_detail e")
  case True
  then show ?thesis
    by (simp add: templates_parse_event_instantiation)
next
  case False
  have "prefix (map template_name (templates u)) (map template_name (templates (parse_event u e)))"
    using templates_parse_event_prefix by (rule map_mono_prefix)
  then have "count_list (map template_name (templates u)) []
      \<le> count_list (map template_name (templates (parse_event u e))) []"
    by (rule count_list_prefix_le)
  then show ?thesis
    using False by auto
qed

lemma empty_names_foldl:
  "count_list (map template_name (templates u)) []
     + length (filter (\<lambda>e. is_instantiation e \<and> lacks_detail e) evs)
   \<le> count_list (map template_name (templates (foldl parse_event u evs))) []"
proof (induction evs arbitrary: u)
  case Nil
  show ?case by simp
next
  case (Cons e evs)
  have "count_list (map template_name (templates u)) []
          + length (filter (\<lambda>e. is_instantiation e \<and> lacks_detail e) (e # evs))
        = (count_list (map template_name (templates u)) []
            + (if is_instantiation e \<and> lacks_detail e then 1 else 0))
          + length (filter (\<lambda>e. is_instantiation e \<and> lacks_detail e) evs)"
    by simp
  also have "\<dots> \<le> count_list (map template_name (templates (parse_event u e))) []
          + length (filter (\<lambda>e. is_instantiation e \<and> lacks_detail e) evs)"
    using empty_names_parse_event [of u e] by simp
  also have "\<dots> \<le> count_list (map template_name (templates (foldl parse_event (parse_event u e) evs))) []"
    by (rule Cons.IH)
  finally show ?case by simp
qed

lemma count_list_all_template_names:
  "u \<in> set units \<Longrightarrow>
     count_list (map template_name (templates u)) k \<le> count_list (all_template_names units) k"
  by (induction units) (auto simp add: all_template_names_def)

lemma length_all_template_names:
  "int (length (all_template_names units)) = (\<Sum>u\<leftarrow>units. int (length (templates u)))"
  by (induction units) (simp_all add: all_template_names_def)

lemma dict_get_member:
  "k \<in> set (map fst d) \<Longrightarrow> (k, dict_get d k dflt) \<in> set d"
proof (induction d)
  case Nil
  then show ?case by simp
next
  case (Cons kv d)
  obtain k' v where kv: "kv = (k', v)" by (cases kv)
  show ?case
  proof (cases "k' = k")
    case True
    then show ?thesis by (simp add: kv)
  next
    case False
    with Cons.prems have "k \<in> set (map fst d)" by (simp add: kv)
    then have "(k, dict_get d k dflt) \<in> set d" by (rule Cons.IH)
    with False show ?thesis by (simp add: kv)
  qed
qed

lemma set_take_all: "length xs \<le> n \<Longrightarrow> set (take n (sort_key f xs)) = set xs"
  by simp

lemma total_instantiations_eq:
  "total_instantiations (template_metrics (from_compilation_units units)) =
     (\<Sum>u\<leftarrow>units. int (length (templates u)))"
  using length_all_template_names [of units]
  by (simp add: from_compilation_units_def Let_def template_counts_aggregate_units
      sum_foldl_count_key)

lemma most_instantiated_eq:
  "most_instantiated (template_metrics (from_compilation_units units)) =
     take 10 (sort_key (\<lambda>x. - snd x) (foldl count_key [] (all_template_names units)))"
  by (simp add: from_compilation_units_def Let_def template_counts_aggregate_units
      sorted_by_value_reverse_def)

lemma unique_templates_eq:
  "unique_templates (template_metrics (from_compilation_units units)) =
     int (length (foldl count_key [] (all_template_names units)))"
  by (simp add: from_compilation_units_def Let_def template_counts_aggregate_units)

lemma counted_name_in_most_instantiated:
  assumes "k \<in> set (all_template_names units)"
    and "unique_templates (template_metrics (from_compilation_units units)) \<le> 10"
  shows "(k, int (count_list (all_template_names units) k))
     \<in> set (most_instantiated (template_metrics (from_compilation_units units)))"
proof -
  let ?d = "foldl count_key [] (all_template_names units)"
  have "k \<in> set (map fst ?d)"
    using assms(1) keys_foldl_count_key [of "all_template_names units"] by simp
  then have "(k, dict_get ?d k 0) \<in> set ?d"
    by (rule dict_get_member)
  then have "(k, int (count_list (all_template_names units) k)) \<in> set ?d"
    by (simp add: dict_get_foldl_count_key)
  moreover have "length ?d \<le> 10"
    using assms(2) by (simp add: unique_templates_eq)
  ultimately show ?thesis
    by (simp add: most_instantiated_eq)
qed

subsection \<open>Instantiation events without a detail\<close>

text \<open>
  C10: an \<^verbatim>\<open>InstantiateClass\<close> or \<^verbatim>\<open>InstantiateFunction\<close> event whose \<^verbatim>\<open>args\<close> lacks the
  \<^verbatim>\<open>detail\<close> key still yields a \<^verbatim>\<open>TemplateInstantiation\<close>, with the empty string as
  template name: the record is in the unit's template list, and the list has one entry per
  instantiation event whether or not a detail is present. Once the unit is aggregated, with
  \<open>n\<close> the number of instantiations named by the empty string over all units: \<open>n\<close> is at
  least the number of such events of the document, the aggregator's counter for the empty
  name is exactly \<open>n\<close>, the returned \<^verbatim>\<open>total_instantiations\<close> is the number of all
  instantiations of all units, and the returned \<^verbatim>\<open>most_instantiated\<close> lists the empty name
  with count \<open>n\<close> whenever there are at most ten distinct names. A \<^verbatim>\<open>Source\<close> event
  without detail, in contrast, leaves the unit as it was.
\<close>

theorem C10_instantiation_without_detail:
  assumes "traceEvents data = Some evs" and "e \<in> set evs"
    and "is_instantiation e" and "lacks_detail e"
  shows "\<lparr> template_name = [],
          instantiation_time =
            from_microseconds (case ev_dur e of None \<Rightarrow> PyInt 0 | Some d \<Rightarrow> d),
          specialization = [], location_file = [], location_line = 0,
          instantiation_count = 1 \<rparr> \<in> set (templates (from_json data source_hint))
       \<and> length (templates (from_json data source_hint)) = length (filter is_instantiation evs)
       \<and> (from_json data source_hint \<in> set units \<longrightarrow>
            (let r = from_compilation_units units;
                 n = int (count_list (all_template_names units) [])
             in 1 \<le> n
                \<and> int (length (filter (\<lambda>e. is_instantiation e \<and> lacks_detail e) evs)) \<le> n
                \<and> dict_get (template_counts (aggregate_units units)) [] 0 = n
                \<and> total_instantiations (template_metrics r) =
                    (\<Sum>u\<leftarrow>units. int (length (templates u)))
                \<and> (unique_templates (template_metrics r) \<le> 10 \<longrightarrow>
                     ([], n) \<in> set (most_instantiated (template_metrics r)))))
       \<and> (\<forall>u s. ev_name s = Some ''Source'' \<and> lacks_detail s \<longrightarrow> parse_event u s = u)"
proof -
  let ?u = "from_json data source_hint"
  let ?t = "\<lparr> template_name = [],
          instantiation_time =
            from_microseconds (case ev_dur e of None \<Rightarrow> PyInt 0 | Some d \<Rightarrow> d),
          specialization = [], location_file = [], location_line = 0,
          instantiation_count = 1 \<rparr>"
  let ?n = "int (count_list (all_template_names units) [])"
  let ?r = "from_compilation_units units"
  have mem: "?t \<in> set (templates ?u)"
    using assms by (simp add: from_json_def template_in_foldl)
  have len: "length (templates ?u) = length (filter is_instantiation evs)"
    using assms(1) by (simp add: from_json_def length_templates_foldl new_unit_def)
  have events: "length (filter (\<lambda>e. is_instantiation e \<and> lacks_detail e) evs)
      \<le> count_list (map template_name (templates ?u)) []"
    using assms(1) empty_names_foldl [of "new_unit source_hint" evs]
    by (simp add: from_json_def new_unit_def)
  have "e \<in> set (filter (\<lambda>e. is_instantiation e \<and> lacks_detail e) evs)"
    using assms(2,3,4) by simp
  then have "0 < length (filter (\<lambda>e. is_instantiation e \<and> lacks_detail e) evs)"
    by (rule length_pos_if_in_set)
  then have some: "1 \<le> length (filter (\<lambda>e. is_instantiation e \<and> lacks_detail e) evs)"
    by linarith
  have agg: "1 \<le> ?n
      \<and> int (length (filter (\<lambda>e. is_instantiation e \<and> lacks_detail e) evs)) \<le> ?n
      \<and> dict_get (template_counts (aggregate_units units)) [] 0 = ?n
      \<and> total_instantiations (template_metrics ?r) = (\<Sum>u\<leftarrow>units. int (length (templates u)))
      \<and> (unique_templates (template_metrics ?r) \<le> 10 \<longrightarrow>
           ([], ?n) \<in> set (most_instantiated (template_metrics ?r)))"
    if "?u \<in> set units"
  proof -
    have unit_le: "count_list (map template_name (templates ?u)) []
        \<le> count_list (all_template_names units) []"
      using that by (rule count_list_all_template_names)
    have many: "int (length (filter (\<lambda>e. is_instantiation e \<and> lacks_detail e) evs)) \<le> ?n"
      using events unit_le by simp
    have pos: "1 \<le> ?n"
      using some many by simp
    then have "0 < count_list (all_template_names units) []" by simp
    then have in_names: "[] \<in> set (all_template_names units)"
      using count_list_0_iff [of "all_template_names units" "[]"] by auto
    have exact: "dict_get (template_counts (aggregate_units units)) [] 0 = ?n"
      by (simp add: template_counts_aggregate_units dict_get_foldl_count_key)
    have top: "([], ?n) \<in> set (most_instantiated (template_metrics ?r))"
      if "unique_templates (template_metrics ?r) \<le> 10"
      using in_names that by (rule counted_name_in_most_instantiated)
    show ?thesis
      using pos many exact total_instantiations_eq top by blast
  qed
  show ?thesis
    unfolding Let_def using mem len agg source_without_detail_dropped by blast
qed

theorem C10_instantiation_without_detail_witness:
  "length (templates (from_json two_bare_trace ''a.cpp'')) = 2
   \<and> dict_get (template_counts (aggregate_units [from_json two_bare_trace ''a.cpp''])) [] 0 = 2
   \<and> total_instantiations (template_metrics
        (from_compilation_units [from_json two_bare_trace ''a.cpp''])) = 2
   \<and> ([], 2) \<in> set (most_instantiated (template_metrics
        (from_compilation_units [from_json two_bare_trace ''a.cpp''])))"
proof -
  let ?evs = "[bare_instantiation, bare_instantiation]"
  let ?units = "[from_json two_bare_trace ''a.cpp'']"
  have evs: "traceEvents two_bare_trace = Some ?evs"
    by (simp add: two_bare_trace_def)
  have mem: "bare_instantiation \<in> set ?evs" by simp
  have inst: "is_instantiation bare_instantiation"
    by (simp add: is_instantiation_def bare_instantiation_def)
  have lacks: "lacks_detail bare_instantiation"
    by (simp add: lacks_detail_def bare_instantiation_def)
  have unit: "from_json two_bare_trace ''a.cpp'' \<in> set ?units" by simp
  have n: "int (count_list (all_template_names ?units) []) = 2"
    by (simp add: all_template_names_def two_bare_trace_def bare_instantiation_def
        from_json_def parse_event_def new_unit_def)
  have uniq: "unique_templates (template_metrics (from_compilation_units ?units)) \<le> 10"
    by (simp add: two_bare_trace_def bare_instantiation_def pipeline_defs)
  have total: "(\<Sum>u\<leftarrow>?units. int (length (templates u))) = 2"
    by (simp add: two_bare_trace_def bare_instantiation_def from_json_def parse_event_def
        new_unit_def)
  show ?thesis
    using C10_instantiation_without_detail [OF evs mem inst lacks, of "''a.cpp''" ?units] unit uniq
    unfolding Let_def n total by (simp add: inst)
qed


end
